theory Spec2Isabelle
  imports
    Complex_Main
    "HOL-Library.AList"
begin

section \<open>JavaScript values\<close>

text \<open>
  The editor front end is JavaScript. Primitive values are compared by the source with
  \<^verbatim>\<open>!==\<close>, which on primitives is inequality of values; numbers are the integers that
  JSON responses and \<^verbatim>\<open>parseInt(v) || 1\<close> produce (no NaN). Structured values (arrays,
  objects with their keys in enumeration order) are only ever compared through
  \<^verbatim>\<open>JSON.stringify\<close> or tested for truthiness.
\<close>

datatype jsprim = JUndefined | JNull | JBool bool | JNum int | JStr string

datatype jsval = Prim jsprim | JArr "jsval list" | JObj "(string \<times> jsval) list"

text \<open>A thrown value: an \<^verbatim>\<open>Error\<close> instance with its message, or anything else.\<close>

datatype js_exn = JsError string | JsOther

text \<open>\<^verbatim>\<open>err instanceof Error ? err.message : fallback\<close>\<close>

fun err_message :: "js_exn \<Rightarrow> string \<Rightarrow> string" where
  "err_message (JsError m) fallback = m"
| "err_message JsOther fallback = fallback"

section \<open>The transmitted graph\<close>

record Visual =
  vis_x :: real
  vis_y :: real
  vis_width :: real
  vis_height :: real

text \<open>
  A node object as the front end reads it. \<open>node_id\<close> is the field \<^verbatim>\<open>id\<close>,
  \<open>node_spec\<close> the field \<^verbatim>\<open>spec\<close>.
\<close>

record GraphNode =
  node_id :: string
  kind :: string
  name :: jsprim
  namespace :: jsprim
  labels :: jsval
  replicas :: jsprim
  serviceType :: jsprim
  selector :: jsval
  containers :: jsval
  ports :: jsval
  filePath :: string
  node_spec :: jsval
  visual :: Visual

text \<open>\<open>from_id\<close> and \<open>to_id\<close> are the fields \<^verbatim>\<open>from\<close> and \<^verbatim>\<open>to\<close>.\<close>

record GraphEdge =
  from_id :: string
  to_id :: string
  relationType :: string

record FileInfo =
  path :: string
  dirty :: bool
  nodeIds :: "string list"

text \<open>
  \<open>files\<close> is the object \<^verbatim>\<open>{path: FileInfo}\<close>, kept as its entries in enumeration
  order (the order \<^verbatim>\<open>Object.values\<close> reads them in).
\<close>

record Graph =
  nodes :: "GraphNode list"
  edges :: "GraphEdge list"
  files :: "(string \<times> FileInfo) list"

record Diagnostic =
  diag_nodeId :: string
  severity :: string
  message :: string

section \<open>The editor store\<close>

record EditorState =
  graph :: "Graph option"
  selectedNodeId :: "string option"
  selectedFile :: "string option"
  isAuthenticated :: bool
  user :: jsval
  repositories :: "jsval list"
  selectedRepo :: "string option"
  selectedBranch :: "string option"
  repoPath :: string
  validationErrors :: "Diagnostic list"
  isLoading :: bool
  error :: "string option"
  sidebarOpen :: bool

text \<open>
  The bodies of the responses the store destructures, and the API client the store calls
  (\<^verbatim>\<open>import * as api\<close>). Every request either rejects with a thrown value (\<open>Inl\<close>)
  or resolves with the decoded body (\<open>Inr\<close>); what the server answers is an input of the
  model. A commit message is the sequence of the UTF-16 code units of the string.
\<close>

record LoadResponse =
  load_graph :: Graph

record UpdateResponse =
  upd_graph :: Graph
  upd_errors :: "Diagnostic list"

record DeleteResponse =
  del_errors :: "Diagnostic list"

record Api =
  api_manifests_getGraph :: "js_exn + Graph"
  api_manifests_load :: "string \<Rightarrow> string \<Rightarrow> string \<Rightarrow> js_exn + LoadResponse"
  api_nodes_update :: "string \<Rightarrow> (string \<times> jsval) list \<Rightarrow> js_exn + UpdateResponse"
  api_nodes_delete :: "string \<Rightarrow> js_exn + DeleteResponse"
  api_apply_apply :: "nat list \<Rightarrow> bool \<Rightarrow> jsprim \<Rightarrow> js_exn + jsval"

definition loadGraph :: "Api \<Rightarrow> EditorState \<Rightarrow> EditorState" where
  "loadGraph api s =
     (let s1 = s\<lparr>isLoading := True, error := None\<rparr>
      in case api_manifests_getGraph api of
           Inr g \<Rightarrow> s1\<lparr>graph := Some g, isLoading := False\<rparr>
         | Inl err \<Rightarrow> s1\<lparr>error := Some (err_message err ''Failed to load graph''),
                         isLoading := False\<rparr>)"

definition loadFromGitHub :: "Api \<Rightarrow> EditorState \<Rightarrow> string \<Rightarrow> string \<Rightarrow> string \<Rightarrow> EditorState" where
  "loadFromGitHub api s repo branch pth =
     (let s1 = s\<lparr>isLoading := True, error := None\<rparr>
      in case api_manifests_load api repo branch (if pth \<noteq> [] then pth else ''.'') of
           Inr r \<Rightarrow> s1\<lparr>graph := Some (load_graph r), selectedRepo := Some repo,
                       selectedBranch := Some branch, repoPath := pth, isLoading := False\<rparr>
         | Inl err \<Rightarrow> s1\<lparr>error := Some (err_message err ''Failed to load manifests''),
                         isLoading := False\<rparr>)"

definition updateNode :: "Api \<Rightarrow> EditorState \<Rightarrow> string \<Rightarrow> (string \<times> jsval) list \<Rightarrow> EditorState" where
  "updateNode api s nodeId updates =
     (case api_nodes_update api nodeId updates of
        Inr r \<Rightarrow> s\<lparr>graph := Some (upd_graph r), validationErrors := upd_errors r\<rparr>
      | Inl err \<Rightarrow> s\<lparr>error := Some (err_message err ''Failed to update node'')\<rparr>)"

definition deleteNode :: "Api \<Rightarrow> EditorState \<Rightarrow> string \<Rightarrow> EditorState" where
  "deleteNode api s nodeId =
     (case api_nodes_delete api nodeId of
        Inr r \<Rightarrow>
          (case graph s of
             Some g \<Rightarrow>
               s\<lparr>graph := Some (g\<lparr>nodes := filter (\<lambda>n. node_id n \<noteq> nodeId) (nodes g),
                                  edges := filter (\<lambda>e. from_id e \<noteq> nodeId \<and> to_id e \<noteq> nodeId)
                                             (edges g)\<rparr>),
                 validationErrors := del_errors r,
                 selectedNodeId := None\<rparr>
           | None \<Rightarrow> s)
      | Inl err \<Rightarrow> s\<lparr>error := Some (err_message err ''Failed to delete node'')\<rparr>)"

text \<open>
  \<^verbatim>\<open>graph.nodes.find(n => n.id === nodeId)\<close> yields the first node with that id; the two
  assignments then change that object where it sits in the array. The nodes of a graph are
  distinct objects (the graph is a parsed response, filtered at most), so no other
  position of the array changes.
\<close>

fun assign_position :: "string \<Rightarrow> real \<Rightarrow> real \<Rightarrow> GraphNode list \<Rightarrow> GraphNode list" where
  "assign_position nodeId x y [] = []"
| "assign_position nodeId x y (n # ns) =
     (if node_id n = nodeId then n\<lparr>visual := (visual n)\<lparr>vis_x := x, vis_y := y\<rparr>\<rparr> # ns
      else n # assign_position nodeId x y ns)"

definition updateNodePosition :: "EditorState \<Rightarrow> string \<Rightarrow> real \<Rightarrow> real \<Rightarrow> EditorState" where
  "updateNodePosition s nodeId x y =
     (case graph s of
        None \<Rightarrow> s
      | Some g \<Rightarrow>
          (case find (\<lambda>n. node_id n = nodeId) (nodes g) of
             None \<Rightarrow> s
           | Some node \<Rightarrow> s\<lparr>graph := Some (g\<lparr>nodes := assign_position nodeId x y (nodes g)\<rparr>)\<rparr>))"

text \<open>
  \<open>applyChanges\<close> returns the state it leaves and what its promise settles to: \<open>Inl err\<close>
  when it rethrows, \<open>Inr result\<close> when it returns the result of the apply request.
  \<open>loadGraph\<close> catches its own failures, so the awaited reload never throws.
\<close>

definition applyChanges :: "Api \<Rightarrow> EditorState \<Rightarrow> nat list \<Rightarrow> bool \<Rightarrow> jsprim
    \<Rightarrow> EditorState \<times> (js_exn + jsval)" where
  "applyChanges api s commitMessage createPR prBranch =
     (let s1 = s\<lparr>isLoading := True, error := None\<rparr>
      in case api_apply_apply api commitMessage createPR prBranch of
           Inr result \<Rightarrow> ((loadGraph api s1)\<lparr>isLoading := False\<rparr>, Inr result)
         | Inl err \<Rightarrow> (s1\<lparr>error := Some (err_message err ''Failed to apply changes''),
                          isLoading := False\<rparr>, Inl err))"

definition getDirtyFiles :: "EditorState \<Rightarrow> FileInfo list" where
  "getDirtyFiles s =
     (case graph s of
        None \<Rightarrow> []
      | Some g \<Rightarrow> filter dirty (map snd (files g)))"

section \<open>The API client\<close>

text \<open>
  What \<open>fetchApi\<close> reads of a response: the flag \<^verbatim>\<open>ok\<close>, the status text, and what the
  calls \<^verbatim>\<open>response.text()\<close> and \<^verbatim>\<open>response.json()\<close> settle to. \<open>fetch\<close> itself is
  the environment: it maps the URL and the request to a response, or rejects.
\<close>

record Response =
  ok :: bool
  statusText :: string
  text_result :: "js_exn + string"
  json_result :: "js_exn + jsval"

record RequestInit =
  req_method :: "string option"
  req_headers :: "(string \<times> string) list"
  req_body :: "string option"

definition API_BASE :: string where
  "API_BASE = ''/api''"

text \<open>
  The request sent: the caller's options, with the headers replaced by the default
  content type overlaid with the caller's own headers (in an object spread a later key
  wins, so a caller's \<^verbatim>\<open>Content-Type\<close> overrides the default).
\<close>

definition merge_headers :: "(string \<times> string) list \<Rightarrow> (string \<times> string) list" where
  "merge_headers hs =
     fold (\<lambda>h. AList.update (fst h) (snd h)) hs [(''Content-Type'', ''application/json'')]"

definition fetch_init :: "RequestInit option \<Rightarrow> RequestInit" where
  "fetch_init options =
     (case options of
        None \<Rightarrow> \<lparr>req_method = None, req_headers = merge_headers [], req_body = None\<rparr>
      | Some opts \<Rightarrow> opts\<lparr>req_headers := merge_headers (req_headers opts)\<rparr>)"

definition fetchApi :: "(string \<Rightarrow> RequestInit \<Rightarrow> js_exn + Response) \<Rightarrow> string
    \<Rightarrow> RequestInit option \<Rightarrow> js_exn + jsval" where
  "fetchApi fetch endpoint options =
     (case fetch (API_BASE @ endpoint) (fetch_init options) of
        Inl err \<Rightarrow> Inl err
      | Inr response \<Rightarrow>
          if \<not> ok response then
            (case text_result response of
               Inl err \<Rightarrow> Inl err
             | Inr error_text \<Rightarrow>
                 Inl (JsError (if error_text \<noteq> [] then error_text else statusText response)))
          else json_result response)"

section \<open>The property editor\<close>

text \<open>
  JavaScript truthiness: \<^verbatim>\<open>undefined\<close>, \<^verbatim>\<open>null\<close>, \<^verbatim>\<open>false\<close>, \<^verbatim>\<open>0\<close> and the
  empty string are falsy; every array and every object is truthy.
\<close>

fun truthy_prim :: "jsprim \<Rightarrow> bool" where
  "truthy_prim JUndefined = False"
| "truthy_prim JNull = False"
| "truthy_prim (JBool b) = b"
| "truthy_prim (JNum i) = (i \<noteq> 0)"
| "truthy_prim (JStr s) = (s \<noteq> [])"

fun truthy :: "jsval \<Rightarrow> bool" where
  "truthy (Prim p) = truthy_prim p"
| "truthy (JArr vs) = True"
| "truthy (JObj kvs) = True"

text \<open>
  \<^verbatim>\<open>JSON.stringify\<close> on these values: \<^verbatim>\<open>undefined\<close> has no serialisation (the result
  is \<^verbatim>\<open>undefined\<close>, here \<open>None\<close>), an \<^verbatim>\<open>undefined\<close> array element is written
  \<^verbatim>\<open>null\<close>, an object property whose value is \<^verbatim>\<open>undefined\<close> is left out, and the
  properties are written in enumeration order.
\<close>

definition digit_char :: "nat \<Rightarrow> char" where
  "digit_char d = char_of (48 + d)"

fun dec_nat :: "nat \<Rightarrow> string" where
  "dec_nat n = (if n < 10 then [digit_char n] else dec_nat (n div 10) @ [digit_char (n mod 10)])"

declare dec_nat.simps [simp del]

definition dec_int :: "int \<Rightarrow> string" where
  "dec_int i = (if i < 0 then CHR ''-'' # dec_nat (nat (- i)) else dec_nat (nat i))"

definition hex_char :: "nat \<Rightarrow> char" where
  "hex_char d = (if d < 10 then char_of (48 + d) else char_of (87 + d))"

definition escape_char :: "char \<Rightarrow> string" where
  "escape_char c =
     (if c = CHR 0x22 then [CHR 0x5C, CHR 0x22]
      else if c = CHR 0x5C then [CHR 0x5C, CHR 0x5C]
      else if c = CHR 0x08 then [CHR 0x5C, CHR ''b'']
      else if c = CHR 0x0C then [CHR 0x5C, CHR ''f'']
      else if c = CHR 0x0A then [CHR 0x5C, CHR ''n'']
      else if c = CHR 0x0D then [CHR 0x5C, CHR ''r'']
      else if c = CHR 0x09 then [CHR 0x5C, CHR ''t'']
      else if of_char c < (32 :: nat)
        then [CHR 0x5C, CHR ''u'', CHR ''0'', CHR ''0'',
              hex_char (of_char c div 16), hex_char (of_char c mod 16)]
      else [c])"

definition quote :: "string \<Rightarrow> string" where
  "quote s = CHR 0x22 # concat (map escape_char s) @ [CHR 0x22]"

fun join :: "string \<Rightarrow> string list \<Rightarrow> string" where
  "join sep [] = []"
| "join sep [t] = t"
| "join sep (t # u # us) = t @ sep @ join sep (u # us)"

fun stringify_prim :: "jsprim \<Rightarrow> string option" where
  "stringify_prim JUndefined = None"
| "stringify_prim JNull = Some ''null''"
| "stringify_prim (JBool b) = Some (if b then ''true'' else ''false'')"
| "stringify_prim (JNum i) = Some (dec_int i)"
| "stringify_prim (JStr s) = Some (quote s)"

fun JSON_stringify :: "jsval \<Rightarrow> string option" where
  "JSON_stringify (Prim p) = stringify_prim p"
| "JSON_stringify (JArr vs) =
     Some (''['' @ join '','' (map (\<lambda>v. case JSON_stringify v of None \<Rightarrow> ''null''
                                          | Some t \<Rightarrow> t) vs) @ '']'')"
| "JSON_stringify (JObj kvs) =
     Some (''{'' @ join '','' (concat (map (\<lambda>kv. case JSON_stringify (snd kv) of
                                                     None \<Rightarrow> []
                                                   | Some t \<Rightarrow> [quote (fst kv) @ '':'' @ t]) kvs))
           @ ''}'')"

text \<open>
  The object \<^verbatim>\<open>updates\<close> that \<open>handleSave\<close> builds, as its entries in the order they
  are assigned. \<open>node\<close> is the node the editor was given, \<open>localNode\<close> the edited copy.
\<close>

definition handleSave_updates :: "GraphNode \<Rightarrow> GraphNode \<Rightarrow> (string \<times> jsval) list" where
  "handleSave_updates node localNode =
     (if name localNode \<noteq> name node then [(''name'', Prim (name localNode))] else [])
     @ (if namespace localNode \<noteq> namespace node
        then [(''namespace'', Prim (namespace localNode))] else [])
     @ (if JSON_stringify (labels localNode) \<noteq> JSON_stringify (labels node)
        then [(''labels'', labels localNode)] else [])
     @ (if replicas localNode \<noteq> replicas node
        then [(''replicas'', Prim (replicas localNode))] else [])
     @ (if serviceType localNode \<noteq> serviceType node
        then [(''serviceType'', Prim (serviceType localNode))] else [])
     @ (if truthy (selector localNode)
           \<and> JSON_stringify (selector localNode) \<noteq> JSON_stringify (selector node)
        then [(''selector'', selector localNode)] else [])
     @ (if truthy (containers localNode)
           \<and> JSON_stringify (containers localNode) \<noteq> JSON_stringify (containers node)
        then [(''containers'', containers localNode)] else [])
     @ (if truthy (ports localNode)
           \<and> JSON_stringify (ports localNode) \<noteq> JSON_stringify (ports node)
        then [(''ports'', ports localNode)] else [])"

text \<open>
  \<open>handleSave\<close> yields the arguments of its call of \<^verbatim>\<open>updateNode\<close>, or \<open>None\<close> when it
  makes no call; it closes the editor in both cases.
\<close>

definition handleSave :: "GraphNode \<Rightarrow> GraphNode \<Rightarrow> (string \<times> (string \<times> jsval) list) option" where
  "handleSave node localNode =
     (let updates = handleSave_updates node localNode
      in if length updates > 0 then Some (node_id node, updates) else None)"

section \<open>The apply dialog\<close>

text \<open>
  The white space and line terminators that \<^verbatim>\<open>String.prototype.trim\<close> strips, as
  UTF-16 code units.
\<close>

definition js_whitespace :: "nat \<Rightarrow> bool" where
  "js_whitespace c =
     (c = 9 \<or> c = 10 \<or> c = 11 \<or> c = 12 \<or> c = 13 \<or> c = 32 \<or> c = 160 \<or> c = 5760
      \<or> (8192 \<le> c \<and> c \<le> 8202) \<or> c = 8232 \<or> c = 8233 \<or> c = 8239 \<or> c = 8287
      \<or> c = 12288 \<or> c = 65279)"

definition trim :: "nat list \<Rightarrow> nat list" where
  "trim s = rev (dropWhile js_whitespace (rev (dropWhile js_whitespace s)))"

record ApplyDialog =
  showApplyModal :: bool
  commitMessage :: "nat list"
  createPR :: bool
  applying :: bool

text \<open>
  \<open>handleApply\<close> yields the dialog state, the store state, and the calls of
  \<^verbatim>\<open>applyChanges\<close> it made, each with its arguments (\<^verbatim>\<open>prBranch\<close> is not passed).
\<close>

definition handleApply :: "Api \<Rightarrow> ApplyDialog \<Rightarrow> EditorState
    \<Rightarrow> ApplyDialog \<times> EditorState \<times> (nat list \<times> bool \<times> jsprim) list" where
  "handleApply api ui s =
     (if trim (commitMessage ui) = [] then (ui, s, [])
      else
        (let ui1 = ui\<lparr>applying := True\<rparr>;
             call = (commitMessage ui, createPR ui, JUndefined)
         in case applyChanges api s (commitMessage ui) (createPR ui) JUndefined of
              (s', Inr result) \<Rightarrow>
                (ui1\<lparr>showApplyModal := False, commitMessage := [], applying := False\<rparr>,
                 s', [call])
            | (s', Inl err) \<Rightarrow> (ui1\<lparr>applying := False\<rparr>, s', [call])))"

text \<open>The \<^verbatim>\<open>disabled\<close> attribute of the Apply button.\<close>

definition apply_disabled :: "ApplyDialog \<Rightarrow> bool" where
  "apply_disabled ui = (trim (commitMessage ui) = [] \<or> applying ui)"

section \<open>The store over the JSON values it holds\<close>

text \<open>
  Nothing in the store checks the form of a response body or of the graph: at run time the
  graph is whatever JSON value was installed. This section gives the operations that
  install or change the graph once more, on such values, with every
  \<^verbatim>\<open>TypeError\<close> the source can meet as a branch. The module is an ES module, hence
  strict code. \<open>type_error\<close> stands for the \<^verbatim>\<open>TypeError\<close> the engine throws; the text
  of its message is the engine's own.
\<close>

definition type_error :: js_exn where
  "type_error = JsError ''TypeError''"

text \<open>
  \<^verbatim>\<open>v.k\<close>, and the destructuring \<^verbatim>\<open>const { k } = v\<close>, for the property names the store
  reads (\<^verbatim>\<open>graph\<close>, \<^verbatim>\<open>errors\<close>, \<^verbatim>\<open>nodes\<close>, \<^verbatim>\<open>edges\<close>, \<^verbatim>\<open>id\<close>, \<^verbatim>\<open>from\<close>,
  \<^verbatim>\<open>to\<close>, \<^verbatim>\<open>visual\<close>): reading from \<^verbatim>\<open>undefined\<close> or \<^verbatim>\<open>null\<close> throws; an object
  yields its own property or \<^verbatim>\<open>undefined\<close>; arrays and the other primitives have no
  property of these names.
\<close>

fun get_prop :: "jsval \<Rightarrow> string \<Rightarrow> js_exn + jsval" where
  "get_prop (Prim JUndefined) k = Inl type_error"
| "get_prop (Prim JNull) k = Inl type_error"
| "get_prop (Prim p) k = Inr (Prim JUndefined)"
| "get_prop (JArr vs) k = Inr (Prim JUndefined)"
| "get_prop (JObj kvs) k = Inr (case map_of kvs k of Some v \<Rightarrow> v | None \<Rightarrow> Prim JUndefined)"

text \<open>
  \<^verbatim>\<open>w.k = v\<close> in strict code: on \<^verbatim>\<open>undefined\<close>, \<^verbatim>\<open>null\<close> and every other
  primitive it throws; on an object it sets the property, in place of an earlier value or
  as a new last property. On an array it stores a named property beside the elements,
  which are all that a \<open>JArr\<close> holds.
\<close>

fun set_prop :: "jsval \<Rightarrow> string \<Rightarrow> jsval \<Rightarrow> js_exn + jsval" where
  "set_prop (Prim p) k v = Inl type_error"
| "set_prop (JArr vs) k v = Inr (JArr vs)"
| "set_prop (JObj kvs) k v = Inr (JObj (AList.update k v kvs))"

text \<open>
  \<^verbatim>\<open>a.filter(keep)\<close> and \<^verbatim>\<open>a.find(test)\<close>: only an array has these methods (a parsed
  body holds no function), and the first call of the callback that throws ends the
  traversal. \<open>array_find\<close> yields the position of the element found, since the source
  then writes into that element.
\<close>

fun filter_exn :: "(jsval \<Rightarrow> js_exn + bool) \<Rightarrow> jsval list \<Rightarrow> js_exn + jsval list" where
  "filter_exn keep [] = Inr []"
| "filter_exn keep (v # vs) =
     (case keep v of
        Inl err \<Rightarrow> Inl err
      | Inr b \<Rightarrow>
          (case filter_exn keep vs of
             Inl err \<Rightarrow> Inl err
           | Inr rest \<Rightarrow> Inr (if b then v # rest else rest)))"

fun array_filter :: "jsval \<Rightarrow> (jsval \<Rightarrow> js_exn + bool) \<Rightarrow> js_exn + jsval" where
  "array_filter (JArr vs) keep =
     (case filter_exn keep vs of Inl err \<Rightarrow> Inl err | Inr rest \<Rightarrow> Inr (JArr rest))"
| "array_filter v keep = Inl type_error"



text \<open>
  The callbacks \<^verbatim>\<open>n => n.id !== nodeId\<close>, \<^verbatim>\<open>n => n.id === nodeId\<close> and
  \<^verbatim>\<open>e => e.from !== nodeId && e.to !== nodeId\<close>; \<^verbatim>\<open>nodeId\<close> is a string, so a value is
  strictly equal to it exactly when it is that string.
\<close>

definition id_differs :: "string \<Rightarrow> jsval \<Rightarrow> js_exn + bool" where
  "id_differs nodeId n =
     (case get_prop n ''id'' of Inl err \<Rightarrow> Inl err | Inr v \<Rightarrow> Inr (v \<noteq> Prim (JStr nodeId)))"


definition edge_apart :: "string \<Rightarrow> jsval \<Rightarrow> js_exn + bool" where
  "edge_apart nodeId e =
     (case get_prop e ''from'' of
        Inl err \<Rightarrow> Inl err
      | Inr f \<Rightarrow>
          if f \<noteq> Prim (JStr nodeId)
          then (case get_prop e ''to'' of
                  Inl err \<Rightarrow> Inl err
                | Inr t \<Rightarrow> Inr (t \<noteq> Prim (JStr nodeId)))
          else Inr False)"

text \<open>The fields of the store that these operations read or set, and the API client.\<close>

record RawState =
  raw_graph :: jsval
  raw_selectedNodeId :: jsval
  raw_selectedRepo :: jsval
  raw_selectedBranch :: jsval
  raw_repoPath :: jsval
  raw_validationErrors :: jsval
  raw_isLoading :: bool
  raw_error :: jsval

record RawApi =
  raw_manifests_getGraph :: "js_exn + jsval"
  raw_manifests_load :: "string \<Rightarrow> string \<Rightarrow> string \<Rightarrow> js_exn + jsval"
  raw_nodes_update :: "string \<Rightarrow> (string \<times> jsval) list \<Rightarrow> js_exn + jsval"
  raw_nodes_delete :: "string \<Rightarrow> js_exn + jsval"
  raw_apply_apply :: "nat list \<Rightarrow> bool \<Rightarrow> jsprim \<Rightarrow> js_exn + jsval"

text \<open>A catch block: \<^verbatim>\<open>set({ error: err instanceof Error ? err.message : fallback })\<close>.\<close>

definition caught :: "RawState \<Rightarrow> js_exn \<Rightarrow> string \<Rightarrow> RawState" where
  "caught s err fallback = s\<lparr>raw_error := Prim (JStr (err_message err fallback))\<rparr>"




text \<open>
  \<open>deleteNode\<close> assigns \<^verbatim>\<open>graph.nodes\<close> and \<^verbatim>\<open>graph.edges\<close> on the object that the store
  holds, before it calls \<^verbatim>\<open>set\<close>. When the filter of the edges throws, the catch block
  therefore finds the graph with its nodes already replaced (\<open>g1\<close>).
\<close>

definition deleteNode_raw :: "RawApi \<Rightarrow> RawState \<Rightarrow> string \<Rightarrow> RawState" where
  "deleteNode_raw api s nodeId =
     (case raw_nodes_delete api nodeId of
        Inl err \<Rightarrow> caught s err ''Failed to delete node''
      | Inr body \<Rightarrow>
      (case get_prop body ''errors'' of
        Inl err \<Rightarrow> caught s err ''Failed to delete node''
      | Inr errors \<Rightarrow>
      if \<not> truthy (raw_graph s) then s
      else
      (case get_prop (raw_graph s) ''nodes'' of
        Inl err \<Rightarrow> caught s err ''Failed to delete node''
      | Inr ns \<Rightarrow>
      (case array_filter ns (id_differs nodeId) of
        Inl err \<Rightarrow> caught s err ''Failed to delete node''
      | Inr ns' \<Rightarrow>
      (case set_prop (raw_graph s) ''nodes'' ns' of
        Inl err \<Rightarrow> caught s err ''Failed to delete node''
      | Inr g1 \<Rightarrow>
      (case get_prop g1 ''edges'' of
        Inl err \<Rightarrow> caught (s\<lparr>raw_graph := g1\<rparr>) err ''Failed to delete node''
      | Inr es \<Rightarrow>
      (case array_filter es (edge_apart nodeId) of
        Inl err \<Rightarrow> caught (s\<lparr>raw_graph := g1\<rparr>) err ''Failed to delete node''
      | Inr es' \<Rightarrow>
      (case set_prop g1 ''edges'' es' of
        Inl err \<Rightarrow> caught (s\<lparr>raw_graph := g1\<rparr>) err ''Failed to delete node''
      | Inr g2 \<Rightarrow>
          s\<lparr>raw_graph := g2, raw_validationErrors := errors,
             raw_selectedNodeId := Prim JNull\<rparr>))))))))"











section \<open>The manifest graph engine\<close>

text \<open>
  Modelled from the spec: the Mutation Engine is not among the sources. Section 7: the
  failures that a mutation raises to its caller.
\<close>

datatype engine_error = ConflictError | NotFoundError

text \<open>
  Modelled from the spec: the Mutation Engine is not among the sources. Section 3: the
  identity of a node is its kind, namespace and name.
\<close>

definition same_identity :: "GraphNode \<Rightarrow> GraphNode \<Rightarrow> bool" where
  "same_identity a b = (kind a = kind b \<and> namespace a = namespace b \<and> name a = name b)"

text \<open>
  Modelled from the spec: the Mutation Engine is not among the sources. Section 4.5: the
  file of a created node is an existing file, which gains the node and becomes dirty, or
  a new tracked file entry.
\<close>

definition add_to_file :: "string \<Rightarrow> string \<Rightarrow> (string \<times> FileInfo) list
    \<Rightarrow> (string \<times> FileInfo) list" where
  "add_to_file p nodeId fs =
     (case map_of fs p of
        Some f \<Rightarrow> AList.update p (f\<lparr>dirty := True, nodeIds := nodeIds f @ [nodeId]\<rparr>) fs
      | None \<Rightarrow> fs @ [(p, \<lparr>path = p, dirty = True, nodeIds = [nodeId]\<rparr>)])"

text \<open>
  Modelled from the spec: the Mutation Engine is not among the sources. Section 4.5,
  Create: fails with \<open>ConflictError\<close> when the identity is already present and leaves the
  graph as it is; otherwise assigns the id derived from the identity, adds the node, marks
  its file dirty, resolves the edges again and validates. The derivation of ids, the
  resolver and the validator are parameters. The result is the graph the session holds
  afterwards and what the caller receives.
\<close>

definition createNode :: "(string \<Rightarrow> jsprim \<Rightarrow> jsprim \<Rightarrow> string) \<Rightarrow> (GraphNode list \<Rightarrow> GraphEdge list)
    \<Rightarrow> (Graph \<Rightarrow> Diagnostic list) \<Rightarrow> Graph \<Rightarrow> GraphNode
    \<Rightarrow> Graph \<times> (engine_error + Graph \<times> Diagnostic list)" where
  "createNode derive_id resolve validate g n =
     (if list_ex (same_identity n) (nodes g) then (g, Inl ConflictError)
      else
        (let n' = n\<lparr>node_id := derive_id (kind n) (namespace n) (name n)\<rparr>;
             ns = nodes g @ [n'];
             g' = \<lparr>nodes = ns, edges = resolve ns,
                   files = add_to_file (filePath n') (node_id n') (files g)\<rparr>
         in (g', Inr (g', validate g'))))"

section \<open>Sample data\<close>

definition web_labels :: jsval where
  "web_labels = JObj [(''app'', Prim (JStr ''web''))]"

definition no_visual :: Visual where
  "no_visual = \<lparr>vis_x = 0, vis_y = 0, vis_width = 64, vis_height = 64\<rparr>"

definition app_node :: GraphNode where
  "app_node = \<lparr>node_id = ''Deployment/default/app'', kind = ''Deployment'',
     name = JStr ''app'', namespace = JStr ''default'', labels = web_labels,
     replicas = JNum 2, serviceType = JUndefined, selector = Prim JUndefined,
     containers = JArr [JObj [(''name'', Prim (JStr ''web'')),
                              (''image'', Prim (JStr ''nginx''))]],
     ports = Prim JUndefined, filePath = ''app.yaml'', node_spec = JObj [],
     visual = no_visual\<rparr>"

definition svc_node :: GraphNode where
  "svc_node = \<lparr>node_id = ''Service/default/app-svc'', kind = ''Service'',
     name = JStr ''app-svc'', namespace = JStr ''default'', labels = JObj [],
     replicas = JUndefined, serviceType = JStr ''ClusterIP'', selector = web_labels,
     containers = Prim JUndefined,
     ports = JArr [JObj [(''port'', Prim (JNum 80))]], filePath = ''app.yaml'',
     node_spec = JObj [], visual = no_visual\<lparr>vis_x := 120\<rparr>\<rparr>"

text \<open>Edited copies of the Service: the selector cleared; the name and the selector changed.\<close>

definition svc_cleared :: GraphNode where
  "svc_cleared = svc_node\<lparr>selector := Prim JUndefined\<rparr>"

definition svc_renamed :: GraphNode where
  "svc_renamed = svc_node\<lparr>name := JStr ''web-svc'',
     selector := JObj [(''app'', Prim (JStr ''shop''))]\<rparr>"

text \<open>A node with the identity of the Deployment, meant for another file.\<close>

definition app_again :: GraphNode where
  "app_again = app_node\<lparr>node_id := [], filePath := ''other.yaml'', replicas := JNum 5\<rparr>"

definition app_edge :: GraphEdge where
  "app_edge = \<lparr>from_id = ''Service/default/app-svc'', to_id = ''Deployment/default/app'',
     relationType = ''selector''\<rparr>"

definition app_file :: FileInfo where
  "app_file = \<lparr>path = ''app.yaml'', dirty = True,
     nodeIds = [''Deployment/default/app'', ''Service/default/app-svc'']\<rparr>"

definition cfg_file :: FileInfo where
  "cfg_file = \<lparr>path = ''cfg.yaml'', dirty = False, nodeIds = []\<rparr>"

definition app_graph :: Graph where
  "app_graph = \<lparr>nodes = [app_node, svc_node], edges = [app_edge],
     files = [(''app.yaml'', app_file), (''cfg.yaml'', cfg_file)]\<rparr>"

definition clean_graph :: Graph where
  "clean_graph = \<lparr>nodes = [app_node, svc_node], edges = [app_edge],
     files = [(''app.yaml'', app_file\<lparr>dirty := False\<rparr>), (''cfg.yaml'', cfg_file)]\<rparr>"

definition init_state :: EditorState where
  "init_state = \<lparr>graph = None, selectedNodeId = None, selectedFile = None,
     isAuthenticated = False, user = Prim JNull, repositories = [], selectedRepo = None,
     selectedBranch = None, repoPath = [], validationErrors = [], isLoading = False,
     error = None, sidebarOpen = True\<rparr>"

definition app_state :: EditorState where
  "app_state = init_state\<lparr>graph := Some app_graph\<rparr>"

text \<open>A server that answers every request, and one that refuses every request.\<close>

definition api_up :: Api where
  "api_up = \<lparr>api_manifests_getGraph = Inr clean_graph,
     api_manifests_load = (\<lambda>repo branch pth. Inr \<lparr>load_graph = clean_graph\<rparr>),
     api_nodes_update = (\<lambda>nodeId updates. Inr \<lparr>upd_graph = app_graph, upd_errors = []\<rparr>),
     api_nodes_delete = (\<lambda>nodeId. Inr \<lparr>del_errors = []\<rparr>),
     api_apply_apply = (\<lambda>msg pr branch.
        Inr (JObj [(''committedPaths'', JArr [Prim (JStr ''app.yaml'')])]))\<rparr>"

definition api_down :: Api where
  "api_down = \<lparr>api_manifests_getGraph = Inl (JsError ''Service Unavailable''),
     api_manifests_load = (\<lambda>repo branch pth. Inl (JsError ''Service Unavailable'')),
     api_nodes_update = (\<lambda>nodeId updates. Inl (JsError ''Service Unavailable'')),
     api_nodes_delete = (\<lambda>nodeId. Inl (JsError ''Service Unavailable'')),
     api_apply_apply = (\<lambda>msg pr branch. Inl (JsError ''Service Unavailable''))\<rparr>"

text \<open>
  A response with status 200 and an empty body, one with status 404 and an empty body,
  one with status 200 and the body \<^verbatim>\<open>{}\<close>, and the \<open>fetch\<close> that answers every
  request with a given response.
\<close>

definition empty_ok_response :: Response where
  "empty_ok_response = \<lparr>ok = True, statusText = ''OK'', text_result = Inr [],
     json_result = Inl (JsError ''Unexpected end of JSON input'')\<rparr>"

definition not_found_response :: Response where
  "not_found_response = \<lparr>ok = False, statusText = ''Not Found'', text_result = Inr [],
     json_result = Inl (JsError ''Unexpected end of JSON input'')\<rparr>"

definition ok_json_response :: Response where
  "ok_json_response = \<lparr>ok = True, statusText = ''OK'', text_result = Inr ''{}'',
     json_result = Inr (JObj [])\<rparr>"

definition fetch_const :: "Response \<Rightarrow> string \<Rightarrow> RequestInit \<Rightarrow> js_exn + Response" where
  "fetch_const r url init = Inr r"

text \<open>The commit messages \<^verbatim>\<open>"fix"\<close> and \<^verbatim>\<open>" \t"\<close>.\<close>

definition fix_dialog :: ApplyDialog where
  "fix_dialog = \<lparr>showApplyModal = True, commitMessage = [102, 105, 120], createPR = True,
     applying = False\<rparr>"

definition blank_dialog :: ApplyDialog where
  "blank_dialog = \<lparr>showApplyModal = True, commitMessage = [32, 9], createPR = True,
     applying = False\<rparr>"

text \<open>
  The sample graph as the JSON value the server sends, a store that holds it, a store
  with no graph, a server that answers, and one whose graph request answers \<^verbatim>\<open>{}\<close>.
\<close>

definition raw_app_node :: jsval where
  "raw_app_node = JObj [(''id'', Prim (JStr ''Deployment/default/app'')),
     (''kind'', Prim (JStr ''Deployment'')), (''name'', Prim (JStr ''app'')),
     (''filePath'', Prim (JStr ''app.yaml'')),
     (''visual'', JObj [(''x'', Prim (JNum 0)), (''y'', Prim (JNum 0)),
                        (''width'', Prim (JNum 64)), (''height'', Prim (JNum 64))])]"

definition raw_svc_node :: jsval where
  "raw_svc_node = JObj [(''id'', Prim (JStr ''Service/default/app-svc'')),
     (''kind'', Prim (JStr ''Service'')), (''name'', Prim (JStr ''app-svc'')),
     (''filePath'', Prim (JStr ''app.yaml'')),
     (''visual'', JObj [(''x'', Prim (JNum 120)), (''y'', Prim (JNum 0)),
                        (''width'', Prim (JNum 64)), (''height'', Prim (JNum 64))])]"

definition raw_app_edge :: jsval where
  "raw_app_edge = JObj [(''from'', Prim (JStr ''Service/default/app-svc'')),
     (''to'', Prim (JStr ''Deployment/default/app'')),
     (''relationType'', Prim (JStr ''selector''))]"

definition raw_app_files :: jsval where
  "raw_app_files = JObj [(''app.yaml'',
     JObj [(''path'', Prim (JStr ''app.yaml'')), (''dirty'', Prim (JBool True)),
           (''nodeIds'', JArr [Prim (JStr ''Deployment/default/app''),
                               Prim (JStr ''Service/default/app-svc'')])])]"

definition raw_app_graph :: jsval where
  "raw_app_graph = JObj [(''nodes'', JArr [raw_app_node, raw_svc_node]),
     (''edges'', JArr [raw_app_edge]), (''files'', raw_app_files)]"

definition raw_app_state :: RawState where
  "raw_app_state = \<lparr>raw_graph = raw_app_graph, raw_selectedNodeId = Prim JNull,
     raw_selectedRepo = Prim JNull, raw_selectedBranch = Prim JNull,
     raw_repoPath = Prim (JStr []), raw_validationErrors = JArr [], raw_isLoading = False,
     raw_error = Prim JNull\<rparr>"

definition raw_api_up :: RawApi where
  "raw_api_up = \<lparr>raw_manifests_getGraph = Inr raw_app_graph,
     raw_manifests_load = (\<lambda>repo branch pth. Inr (JObj [(''graph'', raw_app_graph)])),
     raw_nodes_update = (\<lambda>nodeId updates.
        Inr (JObj [(''graph'', raw_app_graph), (''errors'', JArr [])])),
     raw_nodes_delete = (\<lambda>nodeId. Inr (JObj [(''errors'', JArr [])])),
     raw_apply_apply = (\<lambda>msg pr branch.
        Inr (JObj [(''committedPaths'', JArr [Prim (JStr ''app.yaml'')])]))\<rparr>"




section \<open>Facts about the sample data\<close>

lemma app_state_graph: "graph app_state = Some app_graph"
  by (simp add: app_state_def)

lemma init_state_graph: "graph init_state = None"
  by (simp add: init_state_def)

lemma api_up_delete: "api_nodes_delete api_up nodeId = Inr \<lparr>del_errors = []\<rparr>"
  by (simp add: api_up_def)

lemma api_down_apply:
  "api_apply_apply api_down msg pr branch = Inl (JsError ''Service Unavailable'')"
  by (simp add: api_down_def)

lemma graphs_differ: "Some clean_graph \<noteq> graph app_state"
  by (simp add: clean_graph_def app_state_def app_graph_def app_file_def)

lemma apply_up_graph:
  "graph (fst (applyChanges api_up app_state [102, 105, 120] True JUndefined)) = Some clean_graph"
  by (simp add: applyChanges_def loadGraph_def api_up_def)

section \<open>Deleting a node\<close>

lemma deleteNode_loaded:
  "graph s = Some g \<Longrightarrow> api_nodes_delete api nodeId = Inr r \<Longrightarrow>
   graph (deleteNode api s nodeId) =
     Some (g\<lparr>nodes := filter (\<lambda>n. node_id n \<noteq> nodeId) (nodes g),
             edges := filter (\<lambda>e. from_id e \<noteq> nodeId \<and> to_id e \<noteq> nodeId) (edges g)\<rparr>)"
  by (simp add: deleteNode_def)

text \<open>
  C1. On a loaded graph, when the delete request succeeds, the graph that
  \<open>deleteNode\<close> leaves in the store has no node with the deleted id, no edge whose
  source or target is that id, and still has every node whose id is different.
\<close>

theorem deleteNode_removes_node_and_edges:
  assumes "graph s = Some g" and "api_nodes_delete api nodeId = Inr r"
  shows "\<exists>g'. graph (deleteNode api s nodeId) = Some g'
           \<and> (\<forall>n \<in> set (nodes g'). node_id n \<noteq> nodeId)
           \<and> (\<forall>e \<in> set (edges g'). from_id e \<noteq> nodeId \<and> to_id e \<noteq> nodeId)
           \<and> (\<forall>n \<in> set (nodes g). node_id n \<noteq> nodeId \<longrightarrow> n \<in> set (nodes g'))"
  using deleteNode_loaded [OF assms] by simp

theorem deleteNode_removes_node_and_edges_witness:
  "graph app_state = Some app_graph
   \<and> api_nodes_delete api_up ''Deployment/default/app'' = Inr \<lparr>del_errors = []\<rparr>
   \<and> (\<exists>g'. graph (deleteNode api_up app_state ''Deployment/default/app'') = Some g'
           \<and> (\<forall>n \<in> set (nodes g'). node_id n \<noteq> ''Deployment/default/app'')
           \<and> (\<forall>e \<in> set (edges g'). from_id e \<noteq> ''Deployment/default/app''
                 \<and> to_id e \<noteq> ''Deployment/default/app'')
           \<and> (\<forall>n \<in> set (nodes app_graph). node_id n \<noteq> ''Deployment/default/app''
                 \<longrightarrow> n \<in> set (nodes g')))"
  using deleteNode_removes_node_and_edges [OF app_state_graph api_up_delete]
        app_state_graph api_up_delete
  by blast

section \<open>Applying changes\<close>

text \<open>
  C2. When the apply request rejects, \<open>applyChanges\<close> rethrows the same value and leaves
  the store as it was, but for the error message and the loading flag: the graph, and
  with it every file's dirty flag, is the one from before the call. The graph in the
  store differs afterwards only when the apply request succeeded, and it is then the
  graph the server sent on the reload.
\<close>

theorem applyChanges_failure_keeps_graph:
  "(\<forall>err. api_apply_apply api msg pr branch = Inl err \<longrightarrow>
      applyChanges api s msg pr branch =
        (s\<lparr>isLoading := False, error := Some (err_message err ''Failed to apply changes'')\<rparr>,
         Inl err)
      \<and> graph (fst (applyChanges api s msg pr branch)) = graph s
      \<and> getDirtyFiles (fst (applyChanges api s msg pr branch)) = getDirtyFiles s)
   \<and> (graph (fst (applyChanges api s msg pr branch)) \<noteq> graph s \<longrightarrow>
        (\<exists>result g. api_apply_apply api msg pr branch = Inr result
           \<and> api_manifests_getGraph api = Inr g
           \<and> graph (fst (applyChanges api s msg pr branch)) = Some g
           \<and> snd (applyChanges api s msg pr branch) = Inr result))"
  by (auto simp: applyChanges_def loadGraph_def getDirtyFiles_def Let_def split: sum.splits)

theorem applyChanges_failure_keeps_graph_witness:
  "api_apply_apply api_down [102, 105, 120] True JUndefined = Inl (JsError ''Service Unavailable'')
   \<and> applyChanges api_down app_state [102, 105, 120] True JUndefined =
       (app_state\<lparr>isLoading := False, error := Some ''Service Unavailable''\<rparr>,
        Inl (JsError ''Service Unavailable''))
   \<and> graph (fst (applyChanges api_down app_state [102, 105, 120] True JUndefined)) = graph app_state
   \<and> graph (fst (applyChanges api_up app_state [102, 105, 120] True JUndefined)) \<noteq> graph app_state
   \<and> (\<exists>result g. api_apply_apply api_up [102, 105, 120] True JUndefined = Inr result
         \<and> api_manifests_getGraph api_up = Inr g
         \<and> graph (fst (applyChanges api_up app_state [102, 105, 120] True JUndefined)) = Some g
         \<and> snd (applyChanges api_up app_state [102, 105, 120] True JUndefined) = Inr result)"
proof -
  have changed: "graph (fst (applyChanges api_up app_state [102, 105, 120] True JUndefined))
                   \<noteq> graph app_state"
    using graphs_differ by (simp add: apply_up_graph)
  from applyChanges_failure_keeps_graph [of api_down "[102, 105, 120]" True JUndefined app_state]
       api_down_apply
  have failed: "applyChanges api_down app_state [102, 105, 120] True JUndefined =
          (app_state\<lparr>isLoading := False, error := Some ''Service Unavailable''\<rparr>,
           Inl (JsError ''Service Unavailable''))
        \<and> graph (fst (applyChanges api_down app_state [102, 105, 120] True JUndefined))
            = graph app_state"
    by simp
  from applyChanges_failure_keeps_graph [of api_up "[102, 105, 120]" True JUndefined app_state]
       changed
  have "\<exists>result g. api_apply_apply api_up [102, 105, 120] True JUndefined = Inr result
           \<and> api_manifests_getGraph api_up = Inr g
           \<and> graph (fst (applyChanges api_up app_state [102, 105, 120] True JUndefined)) = Some g
           \<and> snd (applyChanges api_up app_state [102, 105, 120] True JUndefined) = Inr result"
    by blast
  with failed changed api_down_apply show ?thesis by blast
qed

section \<open>Dirty files\<close>

text \<open>
  C4. On a loaded graph a file record is among the result of \<open>getDirtyFiles\<close> exactly
  when it is a value of \<open>files\<close> and its dirty flag is set, the result has one record for
  each dirty entry, and with no graph loaded the result is the empty list.
\<close>

theorem getDirtyFiles_exactly_dirty:
  "(\<forall>g. graph s = Some g \<longrightarrow>
      (\<forall>f. f \<in> set (getDirtyFiles s) \<longleftrightarrow> f \<in> snd ` set (files g) \<and> dirty f)
      \<and> length (getDirtyFiles s) = length (filter (\<lambda>kv. dirty (snd kv)) (files g)))
   \<and> (graph s = None \<longrightarrow> getDirtyFiles s = [])"
  by (auto simp: getDirtyFiles_def filter_map comp_def)

theorem getDirtyFiles_exactly_dirty_witness:
  "graph app_state = Some app_graph
   \<and> (\<forall>f. f \<in> set (getDirtyFiles app_state) \<longleftrightarrow> f \<in> snd ` set (files app_graph) \<and> dirty f)
   \<and> length (getDirtyFiles app_state) = length (filter (\<lambda>kv. dirty (snd kv)) (files app_graph))
   \<and> graph init_state = None \<and> getDirtyFiles init_state = []"
proof -
  from getDirtyFiles_exactly_dirty [of app_state] app_state_graph
  have "(\<forall>f. f \<in> set (getDirtyFiles app_state) \<longleftrightarrow> f \<in> snd ` set (files app_graph) \<and> dirty f)
    \<and> length (getDirtyFiles app_state) = length (filter (\<lambda>kv. dirty (snd kv)) (files app_graph))"
    by blast
  moreover from getDirtyFiles_exactly_dirty [of init_state] init_state_graph
  have "getDirtyFiles init_state = []" by blast
  ultimately show ?thesis using app_state_graph init_state_graph by blast
qed

section \<open>Moving a node\<close>

lemma assign_position_first:
  "find (\<lambda>n. node_id n = nodeId) ns = Some m \<Longrightarrow>
   \<exists>i < length ns. ns ! i = m \<and> node_id m = nodeId \<and> (\<forall>j < i. node_id (ns ! j) \<noteq> nodeId)
     \<and> assign_position nodeId x y ns = ns[i := m\<lparr>visual := (visual m)\<lparr>vis_x := x, vis_y := y\<rparr>\<rparr>]"
proof (induction ns)
  case Nil
  then show ?case by simp
next
  case (Cons n ns)
  show ?case
  proof (cases "node_id n = nodeId")
    case True
    with Cons.prems have "n = m" by simp
    with True show ?thesis by (intro exI [of _ 0]) simp
  next
    case False
    with Cons.prems have "find (\<lambda>n. node_id n = nodeId) ns = Some m" by simp
    from Cons.IH [OF this] obtain i where i: "i < length ns" "ns ! i = m" "node_id m = nodeId"
      "\<forall>j < i. node_id (ns ! j) \<noteq> nodeId"
      "assign_position nodeId x y ns = ns[i := m\<lparr>visual := (visual m)\<lparr>vis_x := x, vis_y := y\<rparr>\<rparr>]"
      by blast
    have "\<forall>j < Suc i. node_id ((n # ns) ! j) \<noteq> nodeId"
      using False i(4) by (auto simp: nth_Cons split: nat.splits)
    with False i show ?thesis by (intro exI [of _ "Suc i"]) simp
  qed
qed

text \<open>
  C7. \<open>updateNodePosition\<close> leaves the state as it is when no graph is loaded or no node
  has the id. Otherwise it changes the node at the first position \<open>i\<close> holding that id,
  and of that node only the coordinates \<open>vis_x\<close> and \<open>vis_y\<close> of \<open>visual\<close>: the other
  fields of the node, the nodes at every other position, the edges, the files (with their
  dirty flags) and the rest of the store are the same.
\<close>

theorem updateNodePosition_frame:
  "(graph s = None \<longrightarrow> updateNodePosition s nodeId x y = s)
   \<and> (\<forall>g. graph s = Some g \<longrightarrow>
        (if \<forall>n \<in> set (nodes g). node_id n \<noteq> nodeId
         then updateNodePosition s nodeId x y = s
         else \<exists>i < length (nodes g). \<exists>g'.
                node_id (nodes g ! i) = nodeId
              \<and> (\<forall>j < i. node_id (nodes g ! j) \<noteq> nodeId)
              \<and> updateNodePosition s nodeId x y = s\<lparr>graph := Some g'\<rparr>
              \<and> edges g' = edges g \<and> files g' = files g
              \<and> length (nodes g') = length (nodes g)
              \<and> (\<forall>j < length (nodes g). j \<noteq> i \<longrightarrow> nodes g' ! j = nodes g ! j)
              \<and> nodes g' ! i =
                  (nodes g ! i)\<lparr>visual := (visual (nodes g ! i))\<lparr>vis_x := x, vis_y := y\<rparr>\<rparr>))"
proof (intro conjI allI impI)
  assume "graph s = None"
  then show "updateNodePosition s nodeId x y = s"
    by (simp add: updateNodePosition_def)
next
  fix g assume g: "graph s = Some g"
  show "if \<forall>n \<in> set (nodes g). node_id n \<noteq> nodeId
         then updateNodePosition s nodeId x y = s
         else \<exists>i < length (nodes g). \<exists>g'.
                node_id (nodes g ! i) = nodeId
              \<and> (\<forall>j < i. node_id (nodes g ! j) \<noteq> nodeId)
              \<and> updateNodePosition s nodeId x y = s\<lparr>graph := Some g'\<rparr>
              \<and> edges g' = edges g \<and> files g' = files g
              \<and> length (nodes g') = length (nodes g)
              \<and> (\<forall>j < length (nodes g). j \<noteq> i \<longrightarrow> nodes g' ! j = nodes g ! j)
              \<and> nodes g' ! i =
                  (nodes g ! i)\<lparr>visual := (visual (nodes g ! i))\<lparr>vis_x := x, vis_y := y\<rparr>\<rparr>"
  proof (cases "find (\<lambda>n. node_id n = nodeId) (nodes g)")
    case None
    then have "\<forall>n \<in> set (nodes g). node_id n \<noteq> nodeId"
      by (simp add: find_None_iff)
    with g None show ?thesis by (simp add: updateNodePosition_def)
  next
    case (Some m)
    from assign_position_first [OF Some, of x y]
    obtain i where i: "i < length (nodes g)" "nodes g ! i = m" "node_id m = nodeId"
      "\<forall>j < i. node_id (nodes g ! j) \<noteq> nodeId"
      "assign_position nodeId x y (nodes g)
         = (nodes g)[i := m\<lparr>visual := (visual m)\<lparr>vis_x := x, vis_y := y\<rparr>\<rparr>]"
      by blast
    have present: "\<not> (\<forall>n \<in> set (nodes g). node_id n \<noteq> nodeId)"
      using i(1,2,3) nth_mem by blast
    let ?g' = "g\<lparr>nodes := (nodes g)[i := m\<lparr>visual := (visual m)\<lparr>vis_x := x, vis_y := y\<rparr>\<rparr>]\<rparr>"
    have "updateNodePosition s nodeId x y = s\<lparr>graph := Some ?g'\<rparr>"
      using g Some i(5) by (simp add: updateNodePosition_def)
    with i have "node_id (nodes g ! i) = nodeId
              \<and> (\<forall>j < i. node_id (nodes g ! j) \<noteq> nodeId)
              \<and> updateNodePosition s nodeId x y = s\<lparr>graph := Some ?g'\<rparr>
              \<and> edges ?g' = edges g \<and> files ?g' = files g
              \<and> length (nodes ?g') = length (nodes g)
              \<and> (\<forall>j < length (nodes g). j \<noteq> i \<longrightarrow> nodes ?g' ! j = nodes g ! j)
              \<and> nodes ?g' ! i =
                  (nodes g ! i)\<lparr>visual := (visual (nodes g ! i))\<lparr>vis_x := x, vis_y := y\<rparr>\<rparr>"
      by simp
    with i(1) present show ?thesis by (simp only: if_False) blast
  qed
qed

lemma pod_absent: "\<forall>n \<in> set (nodes app_graph). node_id n \<noteq> ''Pod/default/none''"
  by (simp add: app_graph_def app_node_def svc_node_def)

lemma svc_present: "\<not> (\<forall>n \<in> set (nodes app_graph). node_id n \<noteq> ''Service/default/app-svc'')"
  by (simp add: app_graph_def app_node_def svc_node_def)

theorem updateNodePosition_frame_witness:
  "graph init_state = None
   \<and> updateNodePosition init_state ''Service/default/app-svc'' 10 20 = init_state
   \<and> graph app_state = Some app_graph
   \<and> updateNodePosition app_state ''Pod/default/none'' 10 20 = app_state
   \<and> (\<exists>i < length (nodes app_graph). \<exists>g'.
          node_id (nodes app_graph ! i) = ''Service/default/app-svc''
        \<and> (\<forall>j < i. node_id (nodes app_graph ! j) \<noteq> ''Service/default/app-svc'')
        \<and> updateNodePosition app_state ''Service/default/app-svc'' 10 20
            = app_state\<lparr>graph := Some g'\<rparr>
        \<and> edges g' = edges app_graph \<and> files g' = files app_graph
        \<and> length (nodes g') = length (nodes app_graph)
        \<and> (\<forall>j < length (nodes app_graph). j \<noteq> i \<longrightarrow> nodes g' ! j = nodes app_graph ! j)
        \<and> nodes g' ! i =
            (nodes app_graph ! i)\<lparr>visual := (visual (nodes app_graph ! i))\<lparr>vis_x := 10, vis_y := 20\<rparr>\<rparr>)"
proof -
  from updateNodePosition_frame [of init_state "''Service/default/app-svc''" 10 20]
       init_state_graph
  have unloaded: "updateNodePosition init_state ''Service/default/app-svc'' 10 20 = init_state"
    by blast
  from updateNodePosition_frame [of app_state "''Pod/default/none''" 10 20]
       app_state_graph pod_absent
  have absent: "updateNodePosition app_state ''Pod/default/none'' 10 20 = app_state"
    by presburger
  from updateNodePosition_frame [of app_state "''Service/default/app-svc''" 10 20]
       app_state_graph
  have "if \<forall>n \<in> set (nodes app_graph). node_id n \<noteq> ''Service/default/app-svc''
        then updateNodePosition app_state ''Service/default/app-svc'' 10 20 = app_state
        else \<exists>i < length (nodes app_graph). \<exists>g'.
          node_id (nodes app_graph ! i) = ''Service/default/app-svc''
        \<and> (\<forall>j < i. node_id (nodes app_graph ! j) \<noteq> ''Service/default/app-svc'')
        \<and> updateNodePosition app_state ''Service/default/app-svc'' 10 20
            = app_state\<lparr>graph := Some g'\<rparr>
        \<and> edges g' = edges app_graph \<and> files g' = files app_graph
        \<and> length (nodes g') = length (nodes app_graph)
        \<and> (\<forall>j < length (nodes app_graph). j \<noteq> i \<longrightarrow> nodes g' ! j = nodes app_graph ! j)
        \<and> nodes g' ! i =
            (nodes app_graph ! i)\<lparr>visual := (visual (nodes app_graph ! i))\<lparr>vis_x := 10, vis_y := 20\<rparr>\<rparr>"
    by blast
  with svc_present have present: "\<exists>i < length (nodes app_graph). \<exists>g'.
          node_id (nodes app_graph ! i) = ''Service/default/app-svc''
        \<and> (\<forall>j < i. node_id (nodes app_graph ! j) \<noteq> ''Service/default/app-svc'')
        \<and> updateNodePosition app_state ''Service/default/app-svc'' 10 20
            = app_state\<lparr>graph := Some g'\<rparr>
        \<and> edges g' = edges app_graph \<and> files g' = files app_graph
        \<and> length (nodes g') = length (nodes app_graph)
        \<and> (\<forall>j < length (nodes app_graph). j \<noteq> i \<longrightarrow> nodes g' ! j = nodes app_graph ! j)
        \<and> nodes g' ! i =
            (nodes app_graph ! i)\<lparr>visual := (visual (nodes app_graph ! i))\<lparr>vis_x := 10, vis_y := 20\<rparr>\<rparr>"
    by (simp only: if_False)
  from unloaded absent present init_state_graph app_state_graph show ?thesis
    by (intro conjI)
qed

section \<open>Fetching\<close>

text \<open>
  C5, as stated, fails: a response that is ok and has an empty body makes
  \<^verbatim>\<open>response.json()\<close> reject, and \<open>fetchApi\<close> raises that error although the response
  is ok.
\<close>

theorem fetchApi_raises_on_ok_response:
  "ok empty_ok_response
   \<and> fetchApi (fetch_const empty_ok_response) ''/auth/logout'' None
       = Inl (JsError ''Unexpected end of JSON input'')"
  by (simp add: fetchApi_def fetch_const_def empty_ok_response_def)

text \<open>
  C5, amended. Given a response, \<open>fetchApi\<close> raises whenever the response is not ok, and
  when the body text could be read the error's message is that text if it is non-empty
  and the status text otherwise. On an ok response \<open>fetchApi\<close> settles as
  \<^verbatim>\<open>response.json()\<close> does: it returns the parsed body, or raises the parse error. So it
  raises exactly when the response is not ok or its body does not parse, and its result is
  an error or the whole parsed body.
\<close>

theorem fetchApi_outcome:
  assumes "fetch (API_BASE @ endpoint) (fetch_init options) = Inr response"
  shows "(\<not> ok response \<longrightarrow>
            (\<exists>err. fetchApi fetch endpoint options = Inl err)
          \<and> (\<forall>t. text_result response = Inr t \<longrightarrow>
                fetchApi fetch endpoint options
                  = Inl (JsError (if t \<noteq> [] then t else statusText response))))
       \<and> (ok response \<longrightarrow> fetchApi fetch endpoint options = json_result response)
       \<and> ((\<exists>err. fetchApi fetch endpoint options = Inl err)
            \<longleftrightarrow> \<not> ok response \<or> (\<exists>err. json_result response = Inl err))"
  using assms by (auto simp: fetchApi_def split: sum.splits)

theorem fetchApi_outcome_witness:
  "fetch_const not_found_response (API_BASE @ ''/files/a.yaml'') (fetch_init None)
     = Inr not_found_response
   \<and> \<not> ok not_found_response
   \<and> fetchApi (fetch_const not_found_response) ''/files/a.yaml'' None = Inl (JsError ''Not Found'')
   \<and> fetch_const ok_json_response (API_BASE @ ''/graph'') (fetch_init None) = Inr ok_json_response
   \<and> ok ok_json_response
   \<and> fetchApi (fetch_const ok_json_response) ''/graph'' None = Inr (JObj [])"
proof -
  have sent: "fetch_const not_found_response (API_BASE @ ''/files/a.yaml'') (fetch_init None)
                = Inr not_found_response"
    by (simp add: fetch_const_def)
  have refused: "\<not> ok not_found_response" "text_result not_found_response = Inr []"
    "statusText not_found_response = ''Not Found''"
    by (simp_all add: not_found_response_def)
  from fetchApi_outcome [of "fetch_const not_found_response" "''/files/a.yaml''" None not_found_response, OF sent] refused
  have failure: "fetchApi (fetch_const not_found_response) ''/files/a.yaml'' None
                   = Inl (JsError ''Not Found'')"
    by simp
  have sent': "fetch_const ok_json_response (API_BASE @ ''/graph'') (fetch_init None)
                 = Inr ok_json_response"
    by (simp add: fetch_const_def)
  have accepted: "ok ok_json_response" "json_result ok_json_response = Inr (JObj [])"
    by (simp_all add: ok_json_response_def)
  from fetchApi_outcome [of "fetch_const ok_json_response" "''/graph''" None ok_json_response, OF sent'] accepted
  have "fetchApi (fetch_const ok_json_response) ''/graph'' None = Inr (JObj [])"
    by simp
  with sent refused(1) failure sent' accepted(1) show ?thesis by (intro conjI)
qed

section \<open>Saving an edited node\<close>

lemma map_of_entry_append:
  "map_of ((if c then [(k, v)] else []) @ rest) k' =
     (if c \<and> k' = k then Some v else map_of rest k')"
  by simp

lemma map_of_entry_last:
  "map_of (if c then [(k, v)] else []) k' = (if c \<and> k' = k then Some v else None)"
  by simp

lemma keys_entry_append:
  "fst ` set ((if c then [(k, v)] else []) @ rest) \<subseteq> K \<longleftrightarrow>
     (c \<longrightarrow> k \<in> K) \<and> fst ` set rest \<subseteq> K"
  by auto

lemma keys_entry_last:
  "fst ` set (if c then [(k, v)] else []) \<subseteq> K \<longleftrightarrow> (c \<longrightarrow> k \<in> K)"
  by auto

lemma updates_name:
  "map_of (handleSave_updates node l) ''name'' =
     (if name l \<noteq> name node then Some (Prim (name l)) else None)"
  unfolding handleSave_updates_def
  by (simp only: map_of_entry_append map_of_entry_last) simp

lemma updates_namespace:
  "map_of (handleSave_updates node l) ''namespace'' =
     (if namespace l \<noteq> namespace node then Some (Prim (namespace l)) else None)"
  unfolding handleSave_updates_def
  by (simp only: map_of_entry_append map_of_entry_last) simp

lemma updates_labels:
  "map_of (handleSave_updates node l) ''labels'' =
     (if JSON_stringify (labels l) \<noteq> JSON_stringify (labels node) then Some (labels l) else None)"
  unfolding handleSave_updates_def
  by (simp only: map_of_entry_append map_of_entry_last) simp

lemma updates_replicas:
  "map_of (handleSave_updates node l) ''replicas'' =
     (if replicas l \<noteq> replicas node then Some (Prim (replicas l)) else None)"
  unfolding handleSave_updates_def
  by (simp only: map_of_entry_append map_of_entry_last) simp

lemma updates_serviceType:
  "map_of (handleSave_updates node l) ''serviceType'' =
     (if serviceType l \<noteq> serviceType node then Some (Prim (serviceType l)) else None)"
  unfolding handleSave_updates_def
  by (simp only: map_of_entry_append map_of_entry_last) simp

lemma updates_selector:
  "map_of (handleSave_updates node l) ''selector'' =
     (if truthy (selector l) \<and> JSON_stringify (selector l) \<noteq> JSON_stringify (selector node)
      then Some (selector l) else None)"
  unfolding handleSave_updates_def
  by (simp only: map_of_entry_append map_of_entry_last) simp

lemma updates_containers:
  "map_of (handleSave_updates node l) ''containers'' =
     (if truthy (containers l) \<and> JSON_stringify (containers l) \<noteq> JSON_stringify (containers node)
      then Some (containers l) else None)"
  unfolding handleSave_updates_def
  by (simp only: map_of_entry_append map_of_entry_last) simp

lemma updates_ports:
  "map_of (handleSave_updates node l) ''ports'' =
     (if truthy (ports l) \<and> JSON_stringify (ports l) \<noteq> JSON_stringify (ports node)
      then Some (ports l) else None)"
  unfolding handleSave_updates_def
  by (simp only: map_of_entry_append map_of_entry_last) simp

lemma updates_keys:
  "fst ` set (handleSave_updates node l) \<subseteq>
     {''name'', ''namespace'', ''labels'', ''replicas'', ''serviceType'', ''selector'',
      ''containers'', ''ports''}"
  unfolding handleSave_updates_def
  by (simp only: keys_entry_append keys_entry_last) simp

lemma key_entry_append:
  "k' \<in> fst ` set ((if c then [(k, v)] else []) @ rest) \<longleftrightarrow>
     (c \<and> k' = k) \<or> k' \<in> fst ` set rest"
  by auto

lemma key_entry_last:
  "k' \<in> fst ` set (if c then [(k, v)] else []) \<longleftrightarrow> c \<and> k' = k"
  by auto

lemma distinct_entry_append:
  "distinct (map fst ((if c then [(k, v)] else []) @ rest)) \<longleftrightarrow>
     (c \<longrightarrow> k \<notin> fst ` set rest) \<and> distinct (map fst rest)"
  by auto

lemma distinct_entry_last:
  "distinct (map fst (if c then [(k, v)] else []))"
  by simp

lemma updates_distinct: "distinct (map fst (handleSave_updates node l))"
  unfolding handleSave_updates_def
  by (simp only: distinct_entry_append distinct_entry_last key_entry_append key_entry_last) simp

text \<open>
  C3, as stated, fails: in a copy whose selector has been cleared the selector differs
  from the node's, yet the payload has no \<open>selector\<close> field (the source tests
  \<^verbatim>\<open>localNode.selector &&\<close> first), and with no other change \<^verbatim>\<open>updateNode\<close> is not
  called.
\<close>

theorem handleSave_skips_cleared_selector:
  "selector svc_cleared \<noteq> selector svc_node
   \<and> map_of (handleSave_updates svc_node svc_cleared) ''selector'' = None
   \<and> handleSave svc_node svc_cleared = None"
  by (simp add: handleSave_def handleSave_updates_def svc_cleared_def svc_node_def web_labels_def)

text \<open>
  C3, amended. The payload built on save has the field \<open>name\<close>, \<open>namespace\<close>,
  \<open>replicas\<close> or \<open>serviceType\<close> exactly when the edited value is not strictly equal to
  the node's; the field \<open>labels\<close> exactly when the JSON serialisations of the two values
  differ; the field \<open>selector\<close>, \<open>containers\<close> or \<open>ports\<close> exactly when the edited
  value is truthy and the serialisations differ. A field that is present carries the
  edited value, no other field is ever present, no field is present twice, and
  \<^verbatim>\<open>updateNode\<close> is called, with the node's id and this payload, exactly when the
  payload is not empty.
\<close>

theorem handleSave_sparse_patch:
  "map_of (handleSave_updates node l) ''name'' =
     (if name l \<noteq> name node then Some (Prim (name l)) else None)
   \<and> map_of (handleSave_updates node l) ''namespace'' =
     (if namespace l \<noteq> namespace node then Some (Prim (namespace l)) else None)
   \<and> map_of (handleSave_updates node l) ''labels'' =
     (if JSON_stringify (labels l) \<noteq> JSON_stringify (labels node) then Some (labels l) else None)
   \<and> map_of (handleSave_updates node l) ''replicas'' =
     (if replicas l \<noteq> replicas node then Some (Prim (replicas l)) else None)
   \<and> map_of (handleSave_updates node l) ''serviceType'' =
     (if serviceType l \<noteq> serviceType node then Some (Prim (serviceType l)) else None)
   \<and> map_of (handleSave_updates node l) ''selector'' =
     (if truthy (selector l) \<and> JSON_stringify (selector l) \<noteq> JSON_stringify (selector node)
      then Some (selector l) else None)
   \<and> map_of (handleSave_updates node l) ''containers'' =
     (if truthy (containers l) \<and> JSON_stringify (containers l) \<noteq> JSON_stringify (containers node)
      then Some (containers l) else None)
   \<and> map_of (handleSave_updates node l) ''ports'' =
     (if truthy (ports l) \<and> JSON_stringify (ports l) \<noteq> JSON_stringify (ports node)
      then Some (ports l) else None)
   \<and> fst ` set (handleSave_updates node l) \<subseteq>
       {''name'', ''namespace'', ''labels'', ''replicas'', ''serviceType'', ''selector'',
        ''containers'', ''ports''}
   \<and> distinct (map fst (handleSave_updates node l))
   \<and> handleSave node l =
       (if handleSave_updates node l = [] then None
        else Some (node_id node, handleSave_updates node l))"
  by (intro conjI updates_name updates_namespace updates_labels updates_replicas
        updates_serviceType updates_selector updates_containers updates_ports updates_keys
        updates_distinct)
     (simp add: handleSave_def)

lemma svc_node_id: "node_id svc_node = ''Service/default/app-svc''"
  by (simp add: svc_node_def)

theorem handleSave_sparse_patch_witness:
  "handleSave svc_node svc_renamed =
     Some (''Service/default/app-svc'',
           [(''name'', Prim (JStr ''web-svc'')),
            (''selector'', JObj [(''app'', Prim (JStr ''shop''))])])
   \<and> handleSave svc_node svc_node = None"
proof -
  have edited: "handleSave_updates svc_node svc_renamed =
          [(''name'', Prim (JStr ''web-svc'')),
           (''selector'', JObj [(''app'', Prim (JStr ''shop''))])]"
    by (simp add: handleSave_updates_def svc_renamed_def svc_node_def web_labels_def
          quote_def escape_char_def)
  have untouched: "handleSave_updates svc_node svc_node = []"
    by (simp add: handleSave_updates_def)
  from handleSave_sparse_patch [where node = svc_node and l = svc_renamed]
  have "handleSave svc_node svc_renamed =
          (if handleSave_updates svc_node svc_renamed = [] then None
           else Some (node_id svc_node, handleSave_updates svc_node svc_renamed))"
    by blast
  moreover from handleSave_sparse_patch [where node = svc_node and l = svc_node]
  have "handleSave svc_node svc_node =
          (if handleSave_updates svc_node svc_node = [] then None
           else Some (node_id svc_node, handleSave_updates svc_node svc_node))"
    by blast
  ultimately show ?thesis
    by (simp add: edited untouched svc_node_id)
qed

section \<open>The apply dialog never submits a blank message\<close>

lemma dropWhile_all_iff: "(\<forall>x \<in> set (dropWhile P xs). P x) \<longleftrightarrow> (\<forall>x \<in> set xs. P x)"
proof
  assume all: "\<forall>x \<in> set (dropWhile P xs). P x"
  have "dropWhile P xs = []"
  proof (rule ccontr)
    assume ne: "dropWhile P xs \<noteq> []"
    then have "\<not> P (hd (dropWhile P xs))" by (rule hd_dropWhile)
    moreover from ne have "hd (dropWhile P xs) \<in> set (dropWhile P xs)" by simp
    ultimately show False using all by blast
  qed
  then show "\<forall>x \<in> set xs. P x" by (simp add: dropWhile_eq_Nil_conv)
next
  assume "\<forall>x \<in> set xs. P x"
  then show "\<forall>x \<in> set (dropWhile P xs). P x" by (blast dest: set_dropWhileD)
qed

lemma trim_empty_iff: "trim s = [] \<longleftrightarrow> (\<forall>c \<in> set s. js_whitespace c)"
proof -
  have "trim s = [] \<longleftrightarrow> (\<forall>c \<in> set (rev (dropWhile js_whitespace s)). js_whitespace c)"
    by (simp add: trim_def dropWhile_eq_Nil_conv)
  also have "\<dots> \<longleftrightarrow> (\<forall>c \<in> set s. js_whitespace c)"
    by (simp add: dropWhile_all_iff)
  finally show ?thesis .
qed

lemma handleApply_calls:
  "snd (snd (handleApply api ui s)) =
     (if trim (commitMessage ui) = [] then []
      else [(commitMessage ui, createPR ui, JUndefined)])"
  by (simp add: handleApply_def Let_def split: prod.splits sum.splits)

text \<open>
  C10. When the trimmed commit message is empty, \<open>handleApply\<close> returns at once, with
  the dialog and the store as they were and without a call of \<^verbatim>\<open>applyChanges\<close>, and the
  Apply button is disabled. A message of white space only leads to no call, and every
  call that \<open>handleApply\<close> makes carries the commit message of the dialog, which then has
  a character that is not white space.
\<close>

theorem handleApply_blank_message:
  "(trim (commitMessage ui) = [] \<longrightarrow> handleApply api ui s = (ui, s, []) \<and> apply_disabled ui)
   \<and> ((\<forall>c \<in> set (commitMessage ui). js_whitespace c) \<longrightarrow>
         snd (snd (handleApply api ui s)) = [])
   \<and> (\<forall>call \<in> set (snd (snd (handleApply api ui s))).
         fst call = commitMessage ui \<and> trim (fst call) \<noteq> []
         \<and> (\<exists>c \<in> set (fst call). \<not> js_whitespace c))"
proof (intro conjI impI ballI)
  assume "trim (commitMessage ui) = []"
  then show "handleApply api ui s = (ui, s, [])" by (simp add: handleApply_def)
next
  assume "trim (commitMessage ui) = []"
  then show "apply_disabled ui" by (simp add: apply_disabled_def)
next
  assume "\<forall>c \<in> set (commitMessage ui). js_whitespace c"
  then have "trim (commitMessage ui) = []" by (simp add: trim_empty_iff)
  then show "snd (snd (handleApply api ui s)) = []" by (simp add: handleApply_calls)
next
  fix call assume call: "call \<in> set (snd (snd (handleApply api ui s)))"
  then have ne: "trim (commitMessage ui) \<noteq> []" and eq: "fst call = commitMessage ui"
    by (auto simp: handleApply_calls split: if_splits)
  from eq show "fst call = commitMessage ui" .
  from ne eq show "trim (fst call) \<noteq> []" by simp
  from ne eq show "\<exists>c \<in> set (fst call). \<not> js_whitespace c" by (simp add: trim_empty_iff)
qed

lemma blank_trim: "trim (commitMessage blank_dialog) = []"
  by (simp add: trim_def blank_dialog_def js_whitespace_def)

lemma blank_all_space: "\<forall>c \<in> set (commitMessage blank_dialog). js_whitespace c"
  by (simp add: blank_dialog_def js_whitespace_def)

lemma fix_calls:
  "snd (snd (handleApply api_up fix_dialog app_state)) = [([102, 105, 120], True, JUndefined)]"
  by (simp add: handleApply_calls fix_dialog_def trim_def js_whitespace_def)

theorem handleApply_blank_message_witness:
  "trim (commitMessage blank_dialog) = []
   \<and> handleApply api_up blank_dialog app_state = (blank_dialog, app_state, [])
   \<and> apply_disabled blank_dialog
   \<and> snd (snd (handleApply api_up fix_dialog app_state)) = [([102, 105, 120], True, JUndefined)]
   \<and> trim [102, 105, 120] \<noteq> []
   \<and> (\<exists>c \<in> set [102, 105, 120]. \<not> js_whitespace c)"
proof -
  from handleApply_blank_message [of blank_dialog api_up app_state] blank_trim
  have blank: "handleApply api_up blank_dialog app_state = (blank_dialog, app_state, [])
               \<and> apply_disabled blank_dialog"
    by blast
  have "([102, 105, 120], True, JUndefined) \<in> set (snd (snd (handleApply api_up fix_dialog app_state)))"
    by (simp add: fix_calls)
  with handleApply_blank_message [of fix_dialog api_up app_state]
  have "trim (fst ([102, 105, 120] :: nat list, True, JUndefined)) \<noteq> []
        \<and> (\<exists>c \<in> set (fst ([102, 105, 120] :: nat list, True, JUndefined)). \<not> js_whitespace c)"
    by blast
  then have "trim [102, 105, 120] \<noteq> [] \<and> (\<exists>c \<in> set [102, 105, 120]. \<not> js_whitespace c)"
    by simp
  with blank blank_trim fix_calls show ?thesis by blast
qed

section \<open>Creating a node with an identity already present\<close>

text \<open>
  C9. When a node with the kind, namespace and name of the new node is already in the
  graph, \<open>createNode\<close> fails with \<open>ConflictError\<close> and the graph afterwards is the graph
  before, so the number of nodes is the same; and \<open>createNode\<close> fails with
  \<open>ConflictError\<close> in no other case.
\<close>

theorem createNode_conflict:
  "(list_ex (same_identity n) (nodes g) \<longrightarrow>
      createNode derive_id resolve validate g n = (g, Inl ConflictError)
      \<and> fst (createNode derive_id resolve validate g n) = g
      \<and> length (nodes (fst (createNode derive_id resolve validate g n))) = length (nodes g))
   \<and> (snd (createNode derive_id resolve validate g n) = Inl ConflictError
        \<longleftrightarrow> (\<exists>m \<in> set (nodes g). kind m = kind n \<and> namespace m = namespace n \<and> name m = name n))"
  by (auto simp: createNode_def Let_def list_ex_iff same_identity_def)

theorem createNode_conflict_witness:
  "list_ex (same_identity app_again) (nodes app_graph)
   \<and> createNode (\<lambda>k ns nm. k) (\<lambda>ns. []) (\<lambda>g. []) app_graph app_again
       = (app_graph, Inl ConflictError)
   \<and> length (nodes (fst (createNode (\<lambda>k ns nm. k) (\<lambda>ns. []) (\<lambda>g. []) app_graph app_again)))
       = length (nodes app_graph)"
proof -
  have present: "list_ex (same_identity app_again) (nodes app_graph)"
    by (simp add: same_identity_def app_again_def app_graph_def app_node_def)
  with createNode_conflict [of app_again app_graph "\<lambda>k ns nm. k" "\<lambda>ns. []" "\<lambda>g. []"]
  show ?thesis by blast
qed

section \<open>The shape of the graph\<close>























lemma deleteNode_raw_example:
  "deleteNode_raw raw_api_up raw_app_state ''Deployment/default/app''
   = raw_app_state\<lparr>raw_graph :=
       JObj [(''nodes'', JArr [raw_svc_node]), (''edges'', JArr []),
             (''files'', raw_app_files)]\<rparr>"
  by (simp add: deleteNode_raw_def raw_api_up_def raw_app_state_def raw_app_graph_def
        raw_app_node_def raw_svc_node_def raw_app_edge_def id_differs_def edge_apart_def)

text \<open>A graph whose list of edges holds \<^verbatim>\<open>null\<close>: the nodes are filtered, then the filter
  of the edges raises, and the catch block finds the graph with the nodes already replaced.\<close>

lemma deleteNode_raw_partial_example:
  "deleteNode_raw raw_api_up
     (raw_app_state\<lparr>raw_graph :=
        JObj [(''nodes'', JArr [raw_app_node, raw_svc_node]), (''edges'', JArr [Prim JNull])]\<rparr>)
     ''Deployment/default/app''
   = raw_app_state\<lparr>raw_graph :=
        JObj [(''nodes'', JArr [raw_svc_node]), (''edges'', JArr [Prim JNull])],
       raw_error := Prim (JStr ''TypeError'')\<rparr>"
  by (simp add: deleteNode_raw_def raw_api_up_def raw_app_state_def caught_def type_error_def
        raw_app_node_def raw_svc_node_def id_differs_def edge_apart_def)



section \<open>The model on the sample data\<close>

lemma deleteNode_example:
  "graph (deleteNode api_up app_state ''Deployment/default/app'')
     = Some (app_graph\<lparr>nodes := [svc_node], edges := []\<rparr>)"
  by (simp add: deleteNode_def api_up_def app_state_def app_graph_def app_node_def svc_node_def
        app_edge_def)

lemma getDirtyFiles_example: "getDirtyFiles app_state = [app_file]"
  by (simp add: getDirtyFiles_def app_state_def app_graph_def app_file_def cfg_file_def)

lemma updateNodePosition_example:
  "updateNodePosition app_state ''Service/default/app-svc'' 10 20 =
     app_state\<lparr>graph := Some (app_graph\<lparr>nodes :=
       [app_node, svc_node\<lparr>visual := \<lparr>vis_x = 10, vis_y = 20, vis_width = 64,
                                        vis_height = 64\<rparr>\<rparr>]\<rparr>)\<rparr>"
  by (simp add: updateNodePosition_def app_state_def app_graph_def app_node_def svc_node_def
        no_visual_def)

lemma handleApply_example:
  "handleApply api_up fix_dialog app_state =
     (\<lparr>showApplyModal = False, commitMessage = [], createPR = True, applying = False\<rparr>,
      app_state\<lparr>graph := Some clean_graph\<rparr>, [([102, 105, 120], True, JUndefined)])"
  by (simp add: handleApply_def applyChanges_def loadGraph_def api_up_def fix_dialog_def
        trim_def js_whitespace_def app_state_def init_state_def)

lemma JSON_stringify_example:
  "JSON_stringify (JObj [(''app'', Prim (JStr ''web'')), (''n'', Prim (JNum (- 120))),
       (''u'', Prim JUndefined), (''a'', JArr [Prim JUndefined, Prim (JBool True)])])
     = Some ''{\"app\":\"web\",\"n\":-120,\"a\":[null,true]}''"
  by code_simp

end
